theory Spec2Isabelle
  imports Main "HOL-Library.Word"
begin

unbundle bit_operations_syntax

section \<open>Data model of cmd/troopinfo/main.go\<close>

type_synonym byte = "8 word"
type_synonym int32 = "32 word"

text \<open>
  A Go \<open>float32\<close> is stored and moved, never computed with, by this program. It is
  represented by its IEEE-754 bit pattern: \<open>Float32frombits\<close> and \<open>Float32bits\<close> are
  \<open>math.Float32frombits\<close> and \<open>math.Float32bits\<close>, the two directions of that
  identification. Arithmetic, comparison and decimal printing of floats are not modelled.
\<close>

datatype float32 = Float32frombits (Float32bits: "32 word")

datatype error =
    EOF
  | ErrUnexpectedEOF
  | errInvalidSOX
  | errIndexOutOfRange
  | errReadFile
  | errUnmarshal

record levelUpData =
  SkillID :: int32
  SkillPerLevel :: float32

text \<open>The Go array type \<open>[3]levelUpData\<close>: three elements, no more and no fewer.\<close>

type_synonym levelUpData3 = "levelUpData \<times> levelUpData \<times> levelUpData"

record troopInfo =
  Job :: int32
  TypeID :: int32
  MoveSpeed :: float32
  RotateRate :: float32
  MoveAcceleration :: float32
  MoveDeceleration :: float32
  SightRange :: float32
  AttackRangeMax :: float32
  AttackRangeMin :: float32
  AttackFrontRange :: float32
  DirectAttack :: float32
  IndirectAttack :: float32
  Defense :: float32
  BaseWidth :: float32
  ResistMelee :: float32
  ResistRanged :: float32
  ResistFrontal :: float32
  ResistExplosion :: float32
  ResistFire :: float32
  ResistIce :: float32
  ResistLightning :: float32
  ResistHoly :: float32
  ResistCurse :: float32
  ResistPoison :: float32
  MaxUnitSpeedMultiplier :: float32
  DefaultUnitHP :: float32
  FormationRandom :: int32
  DefaultUnitNumX :: int32
  DefaultUnitNumY :: int32
  UnitHPLevUp :: float32
  LevelUpData :: levelUpData3
  DamageDistribution :: float32

text \<open>
  \<open>troopInfoSOX\<close>: the arrays \<open>[43]troopInfo\<close> and \<open>[64]byte\<close> are lists; every value the
  program builds has 43 records and 64 trailing bytes (the zero value below, updated
  by index and by \<open>copy\<close>).
\<close>

record troopInfoSOX =
  Version :: int32
  Count :: int32
  TroopInfos :: "troopInfo list"
  TheEnd :: "byte list"

definition defaultLength :: nat where
  "defaultLength = 4"

definition troopNames :: "string list" where
  "troopNames =
    [''Archer'', ''Longbows'', ''Infantry'', ''Spearman'', ''Heavy Infantry'', ''Knight'',
     ''Paladin'', ''Calvary'', ''Heavy Calvary'', ''Storm Riders'', ''Sappers'',
     ''Pyro Techs'', ''Bomber Wings'', ''Mortar'', ''Ballista'', ''Harpoon'', ''Catapult'',
     ''Battaloon'', ''Dark Elves Archer'', ''Dark Elves Calvary Archers'',
     ''Dark Elves Infantry'', ''Dark Elves Knights'', ''Dark Elves Calvary'',
     ''Orc Infantry'', ''Orc Riders'', ''Orc Heavy Riders'', ''Orc Axe Man'',
     ''Orc Heavy Infantry'', ''Orc Sappers'', ''Orc Scorpion'', ''Orc Swamp Mammoth'',
     ''Orc Dirigible'', ''Orc Black Wyverns'', ''Orc Ghouls'', ''Orc Bone Dragon'',
     ''Wall Archers (Humans)'', ''Scouts'', ''Ghoul Selfdestruct'',
     ''Encablossa Monster (Melee)'', ''Encablossa Flying Monster'',
     ''Encablossa Monster (Ranged)'', ''Wall Archers (Elves)'', ''Encablossa Main'']"

text \<open>The Go zero values \<open>levelUpData{}\<close>, \<open>troopInfo{}\<close> and \<open>troopInfoSOX{}\<close>.\<close>

definition zero_levelUpData :: levelUpData where
  "zero_levelUpData = \<lparr>SkillID = 0, SkillPerLevel = Float32frombits 0\<rparr>"

definition zero_troopInfo :: troopInfo where
  "zero_troopInfo =
    \<lparr>Job = 0, TypeID = 0,
     MoveSpeed = Float32frombits 0, RotateRate = Float32frombits 0,
     MoveAcceleration = Float32frombits 0, MoveDeceleration = Float32frombits 0,
     SightRange = Float32frombits 0,
     AttackRangeMax = Float32frombits 0, AttackRangeMin = Float32frombits 0,
     AttackFrontRange = Float32frombits 0,
     DirectAttack = Float32frombits 0, IndirectAttack = Float32frombits 0,
     Defense = Float32frombits 0,
     BaseWidth = Float32frombits 0,
     ResistMelee = Float32frombits 0, ResistRanged = Float32frombits 0,
     ResistFrontal = Float32frombits 0, ResistExplosion = Float32frombits 0,
     ResistFire = Float32frombits 0, ResistIce = Float32frombits 0,
     ResistLightning = Float32frombits 0, ResistHoly = Float32frombits 0,
     ResistCurse = Float32frombits 0, ResistPoison = Float32frombits 0,
     MaxUnitSpeedMultiplier = Float32frombits 0, DefaultUnitHP = Float32frombits 0,
     FormationRandom = 0, DefaultUnitNumX = 0, DefaultUnitNumY = 0,
     UnitHPLevUp = Float32frombits 0,
     LevelUpData = (zero_levelUpData, zero_levelUpData, zero_levelUpData),
     DamageDistribution = Float32frombits 0\<rparr>"

definition zero_troopInfoSOX :: troopInfoSOX where
  "zero_troopInfoSOX =
    \<lparr>Version = 0, Count = 0, TroopInfos = replicate 43 zero_troopInfo,
     TheEnd = replicate 64 0\<rparr>"

section \<open>Library calls the program makes\<close>

subsection \<open>zerolog\<close>

text \<open>
  \<open>log.Fatal()\<close> only starts a log event. zerolog calls \<open>os.Exit(1)\<close> from the event's
  \<open>Msg\<close> (or \<open>Send\<close>) method; \<open>Err\<close> adds a field to the event and returns it. So the
  statement \<open>log.Fatal().Err(err)\<close>, which main.go uses at lines 150, 158, 243, 251, 262,
  268, 272, 294, 300, 311, 326, 330 and 413, builds an event that is never sent: nothing
  is logged and the process keeps running. The statement
  \<open>log.Fatal().Err(err).Msg("...")\<close> of \<open>int32FromBytes\<close> and \<open>float32FromBytes\<close> does end
  the process. Both functions below say whether the statement ends the process.
\<close>

definition Fatal_Err :: "error \<Rightarrow> bool" where
  "Fatal_Err err = False"

definition Fatal_Err_Msg :: "error \<Rightarrow> string \<Rightarrow> bool" where
  "Fatal_Err_Msg err msg = True"

subsection \<open>encoding/binary, little endian\<close>

text \<open>\<open>binary.LittleEndian.Uint32\<close> and \<open>PutUint32\<close> on a four-byte buffer.\<close>

definition Uint32 :: "byte list \<Rightarrow> 32 word" where
  "Uint32 b =
     ucast (b ! 0) OR push_bit 8 (ucast (b ! 1)) OR push_bit 16 (ucast (b ! 2))
       OR push_bit 24 (ucast (b ! 3))"

definition PutUint32 :: "32 word \<Rightarrow> byte list" where
  "PutUint32 v = [ucast v, ucast (drop_bit 8 v), ucast (drop_bit 16 v), ucast (drop_bit 24 v)]"

text \<open>
  \<open>binary.Read(bytes.NewReader(data), binary.LittleEndian, &x)\<close> for a four-byte \<open>x\<close>
  (\<open>int32\<close> or \<open>float32\<close>): \<open>io.ReadFull\<close> takes four bytes from the reader, and fails
  with \<open>io.EOF\<close> on an empty reader and \<open>io.ErrUnexpectedEOF\<close> on a shorter one.
\<close>

definition binary_Read_uint32 :: "byte list \<Rightarrow> error + 32 word" where
  "binary_Read_uint32 data =
     (if 4 \<le> length data then Inr (Uint32 (take 4 data))
      else if data = [] then Inl EOF
      else Inl ErrUnexpectedEOF)"

text \<open>
  \<open>binary.Read(reader, binary.LittleEndian, &chars)\<close> for \<open>chars\<close> a \<open>[]byte\<close>: the
  pointer to a slice takes the reflection path, whose data size is the slice's current
  length; that many bytes are read and stored into the slice's elements. The slice is
  never grown. The result is the new content of \<open>chars\<close>.
\<close>

definition binary_Read_slice :: "byte list \<Rightarrow> byte list \<Rightarrow> error + byte list" where
  "binary_Read_slice data chars =
     (if length chars \<le> length data then Inr (take (length chars) data)
      else if data = [] then Inl EOF
      else Inl ErrUnexpectedEOF)"

subsection \<open>The open file\<close>

text \<open>
  An open \<open>*os.File\<close> on a regular file is the list of its bytes not yet read.
  \<open>file.Read(data)\<close> fills \<open>data\<close> from the front with as many bytes as are left, up to
  \<open>len(data)\<close>, and returns their number; with none left it returns \<open>0, io.EOF\<close> and
  leaves \<open>data\<close> as it was. The result is (the buffer, n, err) and the file after.
\<close>

type_synonym os_File = "byte list"

definition file_Read :: "byte list \<Rightarrow> os_File \<Rightarrow> (byte list \<times> nat \<times> error option) \<times> os_File" where
  "file_Read data f =
     (if data = [] then ((data, 0, None), f)
      else if f = [] then ((data, 0, Some EOF), f)
      else let n = min (length data) (length f)
           in ((take n f @ drop n data, n, None), drop n f))"

text \<open>The builtin \<open>copy(dst, src)\<close>: the new content of \<open>dst\<close>.\<close>

definition copy :: "'a list \<Rightarrow> 'a list \<Rightarrow> 'a list" where
  "copy dst src =
     (let n = min (length dst) (length src) in take n src @ drop n dst)"

section \<open>Reading\<close>

text \<open>
  A step of the program that reads the file: \<open>Inl err\<close> when the process ended on a
  fatal log, \<open>Inr (x, file)\<close> when it goes on with value \<open>x\<close>.
\<close>

type_synonym 'a prog = "os_File \<Rightarrow> error + ('a \<times> os_File)"

definition returnE :: "'a \<Rightarrow> 'a prog" where
  "returnE x file = Inr (x, file)"

definition bindE :: "'a prog \<Rightarrow> ('a \<Rightarrow> 'b prog) \<Rightarrow> 'b prog" where
  "bindE m k file = (case m file of Inl err \<Rightarrow> Inl err | Inr (x, file') \<Rightarrow> k x file')"

definition exitIf :: "bool \<Rightarrow> error \<Rightarrow> unit prog" where
  "exitIf ends err file = (if ends then Inl err else Inr ((), file))"

definition readBytes :: "byte list prog" where
  "readBytes file =
     (case file_Read (replicate defaultLength 0) file of
        ((data, n, err), file') \<Rightarrow>
          (case err of
             None \<Rightarrow> Inr (data, file')
           | Some e \<Rightarrow>
               if e \<noteq> EOF \<and> Fatal_Err e then Inl e else Inr (data, file')))"

definition int32FromBytes :: "byte list \<Rightarrow> error + int32" where
  "int32FromBytes data =
     (case binary_Read_uint32 data of
        Inl err \<Rightarrow> if Fatal_Err_Msg err ''binary.Read failed'' then Inl err else Inr 0
      | Inr v \<Rightarrow> Inr v)"

definition float32FromBytes :: "byte list \<Rightarrow> error + float32" where
  "float32FromBytes data =
     (case binary_Read_uint32 data of
        Inl err \<Rightarrow>
          if Fatal_Err_Msg err ''binary.Read failed'' then Inl err
          else Inr (Float32frombits 0)
      | Inr v \<Rightarrow> Inr (Float32frombits v))"

definition readInt32 :: "int32 prog" where
  "readInt32 =
     bindE readBytes (\<lambda>data file.
       case int32FromBytes data of Inl err \<Rightarrow> Inl err | Inr v \<Rightarrow> Inr (v, file))"

definition readFloat32 :: "float32 prog" where
  "readFloat32 =
     bindE readBytes (\<lambda>data file.
       case float32FromBytes data of Inl err \<Rightarrow> Inl err | Inr v \<Rightarrow> Inr (v, file))"

definition validSOX :: "int32 \<Rightarrow> int32 \<Rightarrow> bool" where
  "validSOX version count = (if version \<noteq> 100 \<or> count \<noteq> 43 then False else True)"

text \<open>The composite literal of main.go lines 170 to 226: one read per field, in order.\<close>

definition read_troopInfo :: "troopInfo prog" where
  "read_troopInfo =
     bindE readInt32 (\<lambda>job.
     bindE readInt32 (\<lambda>type_id.
     bindE readFloat32 (\<lambda>move_speed.
     bindE readFloat32 (\<lambda>rotate_rate.
     bindE readFloat32 (\<lambda>move_acceleration.
     bindE readFloat32 (\<lambda>move_deceleration.
     bindE readFloat32 (\<lambda>sight_range.
     bindE readFloat32 (\<lambda>attack_range_max.
     bindE readFloat32 (\<lambda>attack_range_min.
     bindE readFloat32 (\<lambda>attack_front_range.
     bindE readFloat32 (\<lambda>direct_attack.
     bindE readFloat32 (\<lambda>indirect_attack.
     bindE readFloat32 (\<lambda>defense.
     bindE readFloat32 (\<lambda>base_width.
     bindE readFloat32 (\<lambda>resist_melee.
     bindE readFloat32 (\<lambda>resist_ranged.
     bindE readFloat32 (\<lambda>resist_frontal.
     bindE readFloat32 (\<lambda>resist_explosion.
     bindE readFloat32 (\<lambda>resist_fire.
     bindE readFloat32 (\<lambda>resist_ice.
     bindE readFloat32 (\<lambda>resist_lightning.
     bindE readFloat32 (\<lambda>resist_holy.
     bindE readFloat32 (\<lambda>resist_curse.
     bindE readFloat32 (\<lambda>resist_poison.
     bindE readFloat32 (\<lambda>max_unit_speed_multiplier.
     bindE readFloat32 (\<lambda>default_unit_hp.
     bindE readInt32 (\<lambda>formation_random.
     bindE readInt32 (\<lambda>default_unit_num_x.
     bindE readInt32 (\<lambda>default_unit_num_y.
     bindE readFloat32 (\<lambda>unit_hp_lev_up.
     bindE readInt32 (\<lambda>skill_id0.
     bindE readFloat32 (\<lambda>skill_per_level0.
     bindE readInt32 (\<lambda>skill_id1.
     bindE readFloat32 (\<lambda>skill_per_level1.
     bindE readInt32 (\<lambda>skill_id2.
     bindE readFloat32 (\<lambda>skill_per_level2.
     bindE readFloat32 (\<lambda>damage_distribution.
     returnE
       \<lparr>Job = job, TypeID = type_id,
        MoveSpeed = move_speed, RotateRate = rotate_rate,
        MoveAcceleration = move_acceleration, MoveDeceleration = move_deceleration,
        SightRange = sight_range,
        AttackRangeMax = attack_range_max, AttackRangeMin = attack_range_min,
        AttackFrontRange = attack_front_range,
        DirectAttack = direct_attack, IndirectAttack = indirect_attack,
        Defense = defense,
        BaseWidth = base_width,
        ResistMelee = resist_melee, ResistRanged = resist_ranged,
        ResistFrontal = resist_frontal, ResistExplosion = resist_explosion,
        ResistFire = resist_fire, ResistIce = resist_ice,
        ResistLightning = resist_lightning, ResistHoly = resist_holy,
        ResistCurse = resist_curse, ResistPoison = resist_poison,
        MaxUnitSpeedMultiplier = max_unit_speed_multiplier,
        DefaultUnitHP = default_unit_hp,
        FormationRandom = formation_random,
        DefaultUnitNumX = default_unit_num_x, DefaultUnitNumY = default_unit_num_y,
        UnitHPLevUp = unit_hp_lev_up,
        LevelUpData =
          (\<lparr>SkillID = skill_id0, SkillPerLevel = skill_per_level0\<rparr>,
           \<lparr>SkillID = skill_id1, SkillPerLevel = skill_per_level1\<rparr>,
           \<lparr>SkillID = skill_id2, SkillPerLevel = skill_per_level2\<rparr>),
        DamageDistribution = damage_distribution\<rparr>
     )))))))))))))))))))))))))))))))))))))"

text \<open>
  The loop \<open>for i := range troopNames\<close> of lines 169 to 229, over the indices it is given.
  An index past the end of the array would panic.
\<close>

fun read_troopInfos :: "nat list \<Rightarrow> troopInfoSOX \<Rightarrow> troopInfoSOX prog" where
  "read_troopInfos [] tis file = Inr (tis, file)"
| "read_troopInfos (i # is) tis file =
     (case read_troopInfo file of
        Inl err \<Rightarrow> Inl err
      | Inr (ti, file') \<Rightarrow>
          if i < length (TroopInfos tis)
          then read_troopInfos is (tis\<lparr>TroopInfos := (TroopInfos tis)[i := ti]\<rparr>) file'
          else Inl errIndexOutOfRange)"

text \<open>
  The loop of lines 234 to 255, "Read the rest of the file", with \<open>buf\<close> the content of
  the \<open>bytes.Buffer\<close>. Each round reads up to four bytes into \<open>data\<close>, decodes them
  into the nil slice \<open>chars\<close> with \<open>binary.Read\<close>, and appends \<open>chars\<close> to the buffer.
\<close>

function read_rest :: "byte list \<Rightarrow> byte list prog" where
  "read_rest buf file =
     (case file_Read (replicate defaultLength 0) file of
        ((data, n, err), file') \<Rightarrow>
          if err = Some EOF then Inr (buf, file')
          else if err \<noteq> None \<and> Fatal_Err (the err) then Inl (the err)
          else
            (case binary_Read_slice data [] of
               Inl e \<Rightarrow> if Fatal_Err e then Inl e else read_rest (buf @ []) file'
             | Inr chars \<Rightarrow> read_rest (buf @ chars) file'))"
  by pat_completeness auto
termination
  by (relation "measure (\<lambda>(buf, file). length file)")
    (auto simp add: file_Read_def defaultLength_def Let_def split: if_splits)

text \<open>
  Lines 154 to 257 of \<open>main\<close>: the header, the check of the header, the 43 records, the
  rest of the file, and the copy of the buffer into \<open>TheEnd\<close>.
\<close>

definition decode_file :: "troopInfoSOX prog" where
  "decode_file =
     bindE readInt32 (\<lambda>version.
     bindE readInt32 (\<lambda>count.
     bindE (exitIf (\<not> validSOX version count \<and> Fatal_Err errInvalidSOX) errInvalidSOX) (\<lambda>_.
     bindE (read_troopInfos [0..<length troopNames]
              \<lparr>Version = version, Count = count,
               TroopInfos = replicate 43 zero_troopInfo, TheEnd = replicate 64 0\<rparr>) (\<lambda>tis.
     bindE (read_rest []) (\<lambda>buf.
     returnE (tis\<lparr>TheEnd := copy (TheEnd tis) buf\<rparr>))))))"

definition Decode :: "byte list \<Rightarrow> error + troopInfoSOX" where
  "Decode b = (case decode_file b of Inl err \<Rightarrow> Inl err | Inr (tis, file) \<Rightarrow> Inr tis)"

section \<open>Writing\<close>

text \<open>
  \<open>binary.Write(buf, binary.LittleEndian, &tis)\<close> walks the struct in declaration order,
  arrays element by element, and writes each \<open>int32\<close> and each \<open>float32\<close> as four
  little-endian bytes, each byte of \<open>TheEnd\<close> as itself.

  A \<open>float32\<close> field is written as \<open>math.Float32bits(float32(v.Float()))\<close>: reflection
  reads it as a \<open>float64\<close> and the encoder converts it back. The two conversions return
  every number, every infinity and every quiet NaN as it was, and turn a signalling NaN
  (exponent bits all set, bit 22 clear, some lower mantissa bit set) into the quiet NaN
  with the same sign and payload, that is, with bit 22 set.
\<close>

definition is_sNaN :: "float32 \<Rightarrow> bool" where
  "is_sNaN x =
     (Float32bits x AND 0x7F800000 = 0x7F800000
      \<and> Float32bits x AND 0x00400000 = 0
      \<and> Float32bits x AND 0x003FFFFF \<noteq> 0)"

definition via_float64 :: "float32 \<Rightarrow> float32" where
  "via_float64 x =
     (if is_sNaN x then Float32frombits (Float32bits x OR 0x00400000) else x)"

datatype scalar = I32 int32 | F32 float32

fun is_int :: "scalar \<Rightarrow> bool" where
  "is_int (I32 v) = True"
| "is_int (F32 x) = False"

fun encode_scalar :: "scalar \<Rightarrow> byte list" where
  "encode_scalar (I32 v) = PutUint32 v"
| "encode_scalar (F32 x) = PutUint32 (Float32bits (via_float64 x))"

definition levelUpData_scalars :: "levelUpData \<Rightarrow> scalar list" where
  "levelUpData_scalars l = [I32 (SkillID l), F32 (SkillPerLevel l)]"

text \<open>The scalar fields of a record that stand before \<open>LevelUpData\<close>, in declaration order.\<close>

definition troopInfo_head_scalars :: "troopInfo \<Rightarrow> scalar list" where
  "troopInfo_head_scalars ti =
     [I32 (Job ti), I32 (TypeID ti),
      F32 (MoveSpeed ti), F32 (RotateRate ti),
      F32 (MoveAcceleration ti), F32 (MoveDeceleration ti),
      F32 (SightRange ti),
      F32 (AttackRangeMax ti), F32 (AttackRangeMin ti), F32 (AttackFrontRange ti),
      F32 (DirectAttack ti), F32 (IndirectAttack ti), F32 (Defense ti),
      F32 (BaseWidth ti),
      F32 (ResistMelee ti), F32 (ResistRanged ti), F32 (ResistFrontal ti),
      F32 (ResistExplosion ti), F32 (ResistFire ti), F32 (ResistIce ti),
      F32 (ResistLightning ti), F32 (ResistHoly ti), F32 (ResistCurse ti),
      F32 (ResistPoison ti),
      F32 (MaxUnitSpeedMultiplier ti), F32 (DefaultUnitHP ti),
      I32 (FormationRandom ti), I32 (DefaultUnitNumX ti), I32 (DefaultUnitNumY ti),
      F32 (UnitHPLevUp ti)]"

definition list3 :: "'a \<times> 'a \<times> 'a \<Rightarrow> 'a list" where
  "list3 t = (case t of (a, b, c) \<Rightarrow> [a, b, c])"

definition troopInfo_scalars :: "troopInfo \<Rightarrow> scalar list" where
  "troopInfo_scalars ti =
     troopInfo_head_scalars ti
       @ concat (map levelUpData_scalars (list3 (LevelUpData ti)))
       @ [F32 (DamageDistribution ti)]"

definition encode_troopInfo :: "troopInfo \<Rightarrow> byte list" where
  "encode_troopInfo ti = concat (map encode_scalar (troopInfo_scalars ti))"

definition Encode :: "troopInfoSOX \<Rightarrow> byte list" where
  "Encode tis =
     encode_scalar (I32 (Version tis)) @ encode_scalar (I32 (Count tis))
       @ concat (map encode_troopInfo (TroopInfos tis))
       @ TheEnd tis"

text \<open>A record, and a container, none of whose float fields holds a signalling NaN.\<close>

fun no_sNaN :: "scalar \<Rightarrow> bool" where
  "no_sNaN (I32 v) = True"
| "no_sNaN (F32 x) = (\<not> is_sNaN x)"

definition troopInfo_no_sNaN :: "troopInfo \<Rightarrow> bool" where
  "troopInfo_no_sNaN ti = list_all no_sNaN (troopInfo_scalars ti)"

definition SOX_no_sNaN :: "troopInfoSOX \<Rightarrow> bool" where
  "SOX_no_sNaN tis = list_all troopInfo_no_sNaN (TroopInfos tis)"

section \<open>The text form\<close>

text \<open>
  \<open>yaml.Marshal(tis)\<close> emits one mapping entry per struct field, in declaration order,
  under the field's \<open>yaml\<close> tag; an array becomes a sequence; the field \<open>TheEnd\<close>,
  tagged \<open>"-"\<close>, is left out. The document is kept as its tree of nodes: how a scalar is
  printed is not modelled.
\<close>

datatype yaml = Scalar scalar | Mapping "(string \<times> yaml) list" | Sequence "yaml list"

definition levelUpData_tags :: "string list" where
  "levelUpData_tags = [''skill_id'', ''skill_per_level'']"

text \<open>The tags of the fields of \<open>troopInfo\<close> that stand before \<open>LevelUpData\<close>.\<close>

definition troopInfo_head_tags :: "string list" where
  "troopInfo_head_tags =
     [''job'', ''type_id'',
      ''move_speed'', ''rotate_rate'', ''move_acceleration'', ''move_deceleration'',
      ''sight_range'',
      ''attack_range_max'', ''attack_range_min'', ''attack_front_range'',
      ''direct_attack'', ''indirect_attack'', ''defense'',
      ''base_width'',
      ''resist_melee'', ''resist_ranged'', ''resist_frontal'', ''resist_explosion'',
      ''resist_fire'', ''resist_ice'', ''resist_lightning'', ''resist_holy'',
      ''resist_curse'', ''resist_poison'',
      ''max_unit_speed_multiplier'', ''default_unit_hp'',
      ''formation_random'', ''default_unit_num_x'', ''default_unit_num_y'',
      ''unit_hp_lev_up'']"

definition marshal_levelUpData :: "levelUpData \<Rightarrow> yaml" where
  "marshal_levelUpData l = Mapping (zip levelUpData_tags (map Scalar (levelUpData_scalars l)))"

definition marshal_troopInfo :: "troopInfo \<Rightarrow> yaml" where
  "marshal_troopInfo ti =
     Mapping
       (zip troopInfo_head_tags (map Scalar (troopInfo_head_scalars ti))
          @ [(''level_up_data'', Sequence (map marshal_levelUpData (list3 (LevelUpData ti)))),
             (''damage_distribution'', Scalar (F32 (DamageDistribution ti)))])"

definition yaml_Marshal :: "troopInfoSOX \<Rightarrow> yaml" where
  "yaml_Marshal tis =
     Mapping
       [(''version'', Scalar (I32 (Version tis))),
        (''count'', Scalar (I32 (Count tis))),
        (''troop_infos'', Sequence (map marshal_troopInfo (TroopInfos tis)))]"

text \<open>\<open>fmt.Sprintf("%d", n)\<close> for a slice index.\<close>

function string_of_nat :: "nat \<Rightarrow> string" where
  "string_of_nat n =
     (if n < 10 then [''0123456789'' ! n]
      else string_of_nat (n div 10) @ [''0123456789'' ! (n mod 10)])"
  by pat_completeness auto
termination
  by (relation "measure id") auto

text \<open>
  Lines 285 to 304, the \<open>-update\<close> mode: one comment line \<open># i -- name\<close> per troop name,
  then the marshalled container.
\<close>

record text_file =
  comments :: "string list"
  document :: yaml

definition ToText :: "troopInfoSOX \<Rightarrow> text_file" where
  "ToText tis =
     \<lparr>comments =
        map (\<lambda>(i, name). ''# '' @ string_of_nat i @ '' -- '' @ name @ [CHR 0x0A])
          (enumerate 0 troopNames),
      document = yaml_Marshal tis\<rparr>"

text \<open>
  Reading the document back: every scalar with the key it stands under, in document
  order, and the nodes of the sequence under the key \<open>troop_infos\<close>.
\<close>

fun labelled_values :: "yaml \<Rightarrow> (string \<times> scalar) list" where
  "labelled_values (Scalar s) = []"
| "labelled_values (Mapping kvs) =
     concat
       (map (\<lambda>(k, v). case v of Scalar s \<Rightarrow> [(k, s)] | _ \<Rightarrow> labelled_values v) kvs)"
| "labelled_values (Sequence xs) = concat (map labelled_values xs)"

definition troop_infos_nodes :: "yaml \<Rightarrow> yaml list" where
  "troop_infos_nodes doc =
     (case doc of
        Mapping kvs \<Rightarrow>
          (case map_of kvs ''troop_infos'' of Some (Sequence xs) \<Rightarrow> xs | _ \<Rightarrow> [])
      | _ \<Rightarrow> [])"

section \<open>From text to binary\<close>

text \<open>
  \<open>binaryData\<close>, lines 339 to 356. \<open>yaml.Unmarshal\<close> is a parameter: a function from
  the text and the container it is given to an error or the container it leaves.
  \<open>yamlFile\<close> is what \<open>ioutil.ReadFile(troopInfoYAMLPath)\<close> returns. \<open>binary.Write\<close> to
  a \<open>bytes.Buffer\<close> does not fail on this struct type. The result is the pair the
  function returns: the bytes of the buffer, and the error or \<open>nil\<close>.
\<close>

definition binaryData ::
  "('t \<Rightarrow> troopInfoSOX \<Rightarrow> error + troopInfoSOX) \<Rightarrow> error + 't \<Rightarrow> troopInfoSOX
     \<Rightarrow> byte list \<times> error option" where
  "binaryData yaml_Unmarshal yamlFile sox =
     (let buf = [] in
      case yamlFile of
        Inl err \<Rightarrow> (buf, Some err)
      | Inr yamlData \<Rightarrow>
          (case yaml_Unmarshal yamlData sox of
             Inl err \<Rightarrow> (buf, Some err)
           | Inr sox' \<Rightarrow> (buf @ Encode sox', None)))"

text \<open>
  \<open>main\<close> with the flag \<open>-write\<close> alone, on a \<open>TroopInfo.sox\<close> that exists and opens:
  lines 148 to 263 decode it, lines 321 to 336 replace it. The two files are the state;
  \<open>ioutil.WriteFile\<close> replaces the content of \<open>TroopInfo.sox\<close> with the bytes it is
  given. The result is the files after the run and the exit code.
\<close>

record 't files =
  sox_file :: "byte list"
  yaml_file :: "error + 't"

definition main_write ::
  "('t \<Rightarrow> troopInfoSOX \<Rightarrow> error + troopInfoSOX) \<Rightarrow> 't files \<Rightarrow> 't files \<times> nat" where
  "main_write yaml_Unmarshal fs =
     (case decode_file (sox_file fs) of
        Inl err \<Rightarrow> (fs, 1)
      | Inr (tis, file) \<Rightarrow>
          (case binaryData yaml_Unmarshal (yaml_file fs) zero_troopInfoSOX of
             (data, err) \<Rightarrow>
               (case err of
                  None \<Rightarrow> (fs\<lparr>sox_file := data\<rparr>, 0)
                | Some e \<Rightarrow>
                    if Fatal_Err e then (fs, 1) else (fs\<lparr>sox_file := data\<rparr>, 0))))"

section \<open>Inputs and values the statements below are evaluated at\<close>

text \<open>The header bytes of a valid file: 100 and 43 as little-endian \<open>int32\<close>.\<close>

definition sox_header :: "byte list" where
  "sox_header = [0x64, 0, 0, 0, 0x2B, 0, 0, 0]"

text \<open>A file of the fixed size, with a valid header, zero records and a zero trailer.\<close>

definition zero_sox_file :: "byte list" where
  "zero_sox_file = sox_header @ replicate (43 * 148) 0 @ replicate 64 0"

text \<open>The same file with every byte of the 64-byte trailer set to 1.\<close>

definition ones_trailer_file :: "byte list" where
  "ones_trailer_file = sox_header @ replicate (43 * 148) 0 @ replicate 64 1"

text \<open>A file of the fixed size whose version is 99.\<close>

definition version99_file :: "byte list" where
  "version99_file = [0x63, 0, 0, 0, 0x2B, 0, 0, 0] @ replicate (43 * 148) 0 @ replicate 64 0"

text \<open>The container with version 100, count 43, zero records and a zero trailer.\<close>

definition valid_zero_SOX :: troopInfoSOX where
  "valid_zero_SOX = zero_troopInfoSOX\<lparr>Version := 100, Count := 43\<rparr>"

section \<open>Auxiliary notions for the proofs\<close>

text \<open>The first \<open>n\<close> bytes of \<open>f\<close>, with zero bytes where \<open>f\<close> has none.\<close>

definition padto :: "nat \<Rightarrow> byte list \<Rightarrow> byte list" where
  "padto n f = take n f @ replicate (n - length f) 0"

text \<open>The record, and the \<open>n\<close> successive records, that the reads produce from \<open>f\<close>.\<close>

definition troopInfo_at :: "byte list \<Rightarrow> troopInfo" where
  "troopInfo_at f =
     (case read_troopInfo f of Inr (ti, file) \<Rightarrow> ti | Inl err \<Rightarrow> zero_troopInfo)"

fun troopInfos_at :: "nat \<Rightarrow> byte list \<Rightarrow> troopInfo list" where
  "troopInfos_at 0 f = []"
| "troopInfos_at (Suc n) f = troopInfo_at f # troopInfos_at n (drop 148 f)"

text \<open>The bytes of a scalar and of a record with every bit pattern written as it is.\<close>

fun raw_scalar :: "scalar \<Rightarrow> byte list" where
  "raw_scalar (I32 v) = PutUint32 v"
| "raw_scalar (F32 x) = PutUint32 (Float32bits x)"

definition raw_troopInfo :: "troopInfo \<Rightarrow> byte list" where
  "raw_troopInfo ti = concat (map raw_scalar (troopInfo_scalars ti))"

declare read_rest.simps [simp del]
declare string_of_nat.simps [simp del]

section \<open>Little-endian words\<close>

lemma Uint32_bytes:
  "Uint32 [a, b, c, d] =
     ucast a OR push_bit 8 (ucast b) OR push_bit 16 (ucast c) OR push_bit 24 (ucast d)"
  by (simp add: Uint32_def)

lemma Uint32_PutUint32: "Uint32 (PutUint32 v) = v"
  unfolding PutUint32_def Uint32_bytes
proof (rule bit_word_eqI)
  fix n
  assume "n < LENGTH(32)"
  then consider "n < 8" | "8 \<le> n" "n < 16" | "16 \<le> n" "n < 24" | "24 \<le> n" "n < 32"
    by fastforce
  then show "bit (ucast (ucast v :: byte) OR push_bit 8 (ucast (ucast (drop_bit 8 v) :: byte))
      OR push_bit 16 (ucast (ucast (drop_bit 16 v) :: byte))
      OR push_bit 24 (ucast (ucast (drop_bit 24 v) :: byte)) :: 32 word) n = bit v n"
    by cases (auto simp add: bit_simps)
qed

lemma PutUint32_Uint32: "PutUint32 (Uint32 [a, b, c, d]) = [a, b, c, d]"
  unfolding PutUint32_def Uint32_bytes
  apply simp
  apply (intro conjI; rule bit_word_eqI)
     apply (auto simp add: bit_simps dest: bit_imp_le_length)
  done

lemma length_PutUint32: "length (PutUint32 v) = 4"
  by (simp add: PutUint32_def)

lemma length_encode_scalar: "length (encode_scalar s) = 4"
  by (cases s) (simp_all add: length_PutUint32)

section \<open>Signalling NaNs\<close>

lemma via_float64_zero: "via_float64 (Float32frombits 0) = Float32frombits 0"
  by (simp add: via_float64_def is_sNaN_def)

lemma encode_scalar_sNaN:
  "encode_scalar (F32 (Float32frombits 0x7FA00000)) = [0, 0, 0xE0, 0x7F]"
  by (simp add: via_float64_def is_sNaN_def PutUint32_def)

lemma encode_scalar_raw: "no_sNaN s \<Longrightarrow> encode_scalar s = raw_scalar s"
  by (cases s) (simp_all add: via_float64_def)

lemma encode_troopInfo_raw: "troopInfo_no_sNaN ti \<Longrightarrow> encode_troopInfo ti = raw_troopInfo ti"
  by (simp add: troopInfo_no_sNaN_def encode_troopInfo_def raw_troopInfo_def list_all_iff
      encode_scalar_raw cong: map_cong)

lemma encode_troopInfos_raw:
  "list_all troopInfo_no_sNaN xs \<Longrightarrow>
   concat (map encode_troopInfo xs) = concat (map raw_troopInfo xs)"
  by (simp add: list_all_iff encode_troopInfo_raw cong: map_cong)

lemma troopInfo_no_sNaN_zero: "troopInfo_no_sNaN zero_troopInfo"
  by (simp add: troopInfo_no_sNaN_def troopInfo_scalars_def troopInfo_head_scalars_def
      levelUpData_scalars_def list3_def zero_troopInfo_def zero_levelUpData_def is_sNaN_def)

lemma SOX_no_sNaN_valid_zero_SOX: "SOX_no_sNaN valid_zero_SOX"
  by (simp add: SOX_no_sNaN_def valid_zero_SOX_def zero_troopInfoSOX_def list_all_iff
      troopInfo_no_sNaN_zero)

section \<open>Zero-padded prefixes\<close>

lemma length_padto: "length (padto n f) = n"
  by (simp add: padto_def)

lemma padto_append: "padto m f @ padto n (drop m f) = padto (m + n) f"
  by (cases "m \<le> length f") (simp_all add: padto_def take_add replicate_add [symmetric])

lemma padto_append_rest: "padto m f @ padto n (drop m f) @ rest = padto (m + n) f @ rest"
  using padto_append [of m f n] by (metis append.assoc)

lemma padto_zeros: "padto n (drop j (f @ replicate k 0)) = padto n (drop j f)"
  by (simp add: padto_def replicate_add [symmetric]) arith

lemma padto_prefix: "j + n \<le> length f \<Longrightarrow> padto n (drop j (f @ t)) = padto n (drop j f)"
  by (simp add: padto_def)

lemma padto_exact: "n \<le> length f \<Longrightarrow> padto n f = take n f"
  by (simp add: padto_def)

lemma padto4: "\<exists>a b c d. padto 4 f = [a, b, c, d]"
proof -
  have "length (padto 4 f) = 4" by (rule length_padto)
  then show ?thesis
    by (auto simp add: length_Suc_conv numeral_eq_Suc)
qed

lemma PutUint32_Uint32_padto: "PutUint32 (Uint32 (padto 4 f)) = padto 4 f"
  using padto4 [of f] by (auto simp add: PutUint32_Uint32)

section \<open>One read\<close>

lemma file_Read4:
  "file_Read (replicate defaultLength 0) f =
     ((padto 4 f, min 4 (length f), if f = [] then Some EOF else None), drop 4 f)"
  by (auto simp add: file_Read_def defaultLength_def padto_def Let_def min_def)

lemma readBytes_eq: "readBytes f = Inr (padto 4 f, drop 4 f)"
  by (simp add: readBytes_def file_Read4 Fatal_Err_def)

lemma binary_Read_uint32_padto: "binary_Read_uint32 (padto 4 f) = Inr (Uint32 (padto 4 f))"
  by (simp add: binary_Read_uint32_def length_padto)

lemma readInt32_eq: "readInt32 f = Inr (Uint32 (padto 4 f), drop 4 f)"
  by (simp add: readInt32_def bindE_def readBytes_eq int32FromBytes_def binary_Read_uint32_padto)

lemma readFloat32_eq: "readFloat32 f = Inr (Float32frombits (Uint32 (padto 4 f)), drop 4 f)"
  by (simp add: readFloat32_def bindE_def readBytes_eq float32FromBytes_def
      binary_Read_uint32_padto)

lemma bindE_Inr: "m f = Inr (x, f') \<Longrightarrow> bindE m k f = k x f'"
  by (simp add: bindE_def)

lemmas read_simps = bindE_Inr [OF readInt32_eq] bindE_Inr [OF readFloat32_eq] returnE_def

section \<open>One record\<close>

lemma read_troopInfo_runs: "\<exists>ti. read_troopInfo f = Inr (ti, drop 148 f)"
  by (simp add: read_troopInfo_def read_simps)

lemma read_troopInfo_eq: "read_troopInfo f = Inr (troopInfo_at f, drop 148 f)"
  using read_troopInfo_runs [of f] by (auto simp add: troopInfo_at_def)

lemma raw_troopInfo_at: "raw_troopInfo (troopInfo_at f) = padto 148 f"
  by (simp add: troopInfo_at_def read_troopInfo_def read_simps raw_troopInfo_def
      troopInfo_scalars_def troopInfo_head_scalars_def levelUpData_scalars_def list3_def
      PutUint32_Uint32_padto padto_append_rest padto_append)

lemma troopInfo_at_zeros: "troopInfo_at (f @ replicate k 0) = troopInfo_at f"
proof -
  have "padto 4 (f @ replicate k 0) = padto 4 f"
    using padto_zeros [of 4 0 f k] by simp
  then show ?thesis
    using padto_zeros [of 4 _ f k]
    by (simp add: troopInfo_at_def read_troopInfo_def read_simps del: drop_append)
qed

lemma troopInfo_at_prefix:
  assumes "148 \<le> length f"
  shows "troopInfo_at (f @ t) = troopInfo_at f"
proof -
  have "padto 4 (f @ t) = padto 4 f"
    using padto_prefix [of 0 4 f t] assms by simp
  moreover have "j + 4 \<le> 148 \<Longrightarrow> padto 4 (drop j (f @ t)) = padto 4 (drop j f)" for j
    using padto_prefix [of j 4 f t] assms by simp
  ultimately show ?thesis
    by (simp add: troopInfo_at_def read_troopInfo_def read_simps del: drop_append)
qed

lemma troopInfo_at_Nil: "troopInfo_at [] = zero_troopInfo"
  by (simp add: troopInfo_at_def read_troopInfo_def read_simps zero_troopInfo_def
      zero_levelUpData_def padto_def Uint32_def)

lemma troopInfo_at_replicate: "troopInfo_at (replicate k 0) = zero_troopInfo"
  using troopInfo_at_zeros [of "[]" k] by (simp add: troopInfo_at_Nil)

lemma length_troopInfo_scalars: "length (troopInfo_scalars ti) = 37"
  by (cases "LevelUpData ti")
    (simp add: troopInfo_scalars_def troopInfo_head_scalars_def levelUpData_scalars_def list3_def)

lemma length_encode_troopInfo: "length (encode_troopInfo ti) = 148"
  by (cases "LevelUpData ti")
    (simp add: encode_troopInfo_def troopInfo_scalars_def troopInfo_head_scalars_def
      levelUpData_scalars_def list3_def length_PutUint32)

section \<open>The 43 records\<close>

lemma length_troopInfos_at: "length (troopInfos_at n f) = n"
  by (induction n arbitrary: f) simp_all

lemma raw_troopInfos_at:
  "concat (map raw_troopInfo (troopInfos_at n f)) = padto (148 * n) f"
proof (induction n arbitrary: f)
  case 0
  show ?case by (simp add: padto_def)
next
  case (Suc n)
  show ?case
    using padto_append [of 148 f "148 * n"] by (simp add: Suc raw_troopInfo_at)
qed

lemma drop_append_zeros:
  "\<exists>k'. drop j (f @ replicate k (0::byte)) = drop j f @ replicate k' 0"
  by (rule exI [of _ "k - (j - length f)"]) simp

lemma troopInfos_at_zeros: "troopInfos_at n (f @ replicate k 0) = troopInfos_at n f"
proof (induction n arbitrary: f k)
  case 0
  show ?case by simp
next
  case (Suc n)
  obtain k' where "drop 148 (f @ replicate k (0::byte)) = drop 148 f @ replicate k' 0"
    using drop_append_zeros by blast
  then show ?case
    by (simp add: troopInfo_at_zeros Suc del: drop_append)
qed

lemma troopInfos_at_prefix:
  "148 * n \<le> length f \<Longrightarrow> troopInfos_at n (f @ t) = troopInfos_at n f"
proof (induction n arbitrary: f)
  case 0
  show ?case by simp
next
  case (Suc n)
  then have "148 \<le> length f" and "148 * n \<le> length (drop 148 f)"
    by simp_all
  then show ?case
    by (simp add: troopInfo_at_prefix Suc.IH)
qed

lemma troopInfos_at_replicate: "troopInfos_at n (replicate k 0) = replicate n zero_troopInfo"
  by (induction n arbitrary: k) (simp_all add: troopInfo_at_replicate)

lemma read_troopInfos_upt:
  "d = n - k \<Longrightarrow> k \<le> n \<Longrightarrow> length (TroopInfos tis) = n \<Longrightarrow>
   read_troopInfos [k..<n] tis f =
     Inr (tis\<lparr>TroopInfos := take k (TroopInfos tis) @ troopInfos_at d f\<rparr>, drop (148 * d) f)"
proof (induction d arbitrary: k tis f)
  case 0
  then show ?case by simp
next
  case (Suc d)
  let ?tis = "tis\<lparr>TroopInfos := (TroopInfos tis)[k := troopInfo_at f]\<rparr>"
  have k: "k < n" using Suc.prems by simp
  have upt: "[k..<n] = k # [Suc k..<n]" using k by (rule upt_conv_Cons)
  have step: "read_troopInfos [k..<n] tis f = read_troopInfos [Suc k..<n] ?tis (drop 148 f)"
    using k Suc.prems by (simp add: upt read_troopInfo_eq)
  have "read_troopInfos [Suc k..<n] ?tis (drop 148 f) =
     Inr (?tis\<lparr>TroopInfos := take (Suc k) (TroopInfos ?tis) @ troopInfos_at d (drop 148 f)\<rparr>,
          drop (148 * d) (drop 148 f))"
    using Suc.prems k by (intro Suc.IH) simp_all
  moreover have "take (Suc k) (TroopInfos ?tis) = take k (TroopInfos tis) @ [troopInfo_at f]"
    using k Suc.prems by (simp add: take_Suc_conv_app_nth)
  ultimately show ?case
    by (simp add: step add.commute)
qed

lemma length_troopNames: "length troopNames = 43"
  by (simp add: troopNames_def)

section \<open>The rest of the file\<close>

lemma read_rest_eq: "read_rest buf f = Inr (buf, [])"
proof (induction f arbitrary: buf rule: length_induct)
  case (1 f)
  show ?case
  proof (cases "f = []")
    case True
    then show ?thesis by (subst read_rest.simps) (simp add: file_Read4)
  next
    case False
    then have "length (drop 4 f) < length f" by simp
    then have "read_rest buf (drop 4 f) = Inr (buf, [])" using 1 by blast
    then show ?thesis
      using False by (subst read_rest.simps) (simp add: file_Read4 binary_Read_slice_def)
  qed
qed

lemma copy_Nil: "copy dst [] = dst"
  by (simp add: copy_def)

section \<open>Decode in closed form\<close>

lemma decode_file_eq:
  "decode_file b =
     Inr (\<lparr>Version = Uint32 (padto 4 b), Count = Uint32 (padto 4 (drop 4 b)),
           TroopInfos = troopInfos_at 43 (drop 8 b), TheEnd = replicate 64 0\<rparr>, [])"
proof -
  have loop: "read_troopInfos [0..<43] tis f =
      Inr (tis\<lparr>TroopInfos := troopInfos_at 43 f\<rparr>, drop (148 * 43) f)"
    if "length (TroopInfos tis) = 43" for tis f
    using read_troopInfos_upt [of 43 43 0 tis f] that by (simp del: upt_rec_numeral)
  show ?thesis
    by (simp add: decode_file_def read_simps exitIf_def Fatal_Err_def length_troopNames
        bindE_def loop read_rest_eq copy_Nil del: upt_rec_numeral)
qed

lemma Decode_eq:
  "Decode b =
     Inr \<lparr>Version = Uint32 (padto 4 b), Count = Uint32 (padto 4 (drop 4 b)),
          TroopInfos = troopInfos_at 43 (drop 8 b), TheEnd = replicate 64 0\<rparr>"
  by (simp add: Decode_def decode_file_eq)

lemma Encode_Decode_eq:
  assumes "Decode b = Inr c" and "SOX_no_sNaN c"
  shows "Encode c = padto 6372 b @ replicate 64 0"
proof -
  have c: "c = \<lparr>Version = Uint32 (padto 4 b), Count = Uint32 (padto 4 (drop 4 b)),
      TroopInfos = troopInfos_at 43 (drop 8 b), TheEnd = replicate 64 0\<rparr>"
    using assms(1) by (simp add: Decode_eq)
  have "concat (map encode_troopInfo (TroopInfos c)) = concat (map raw_troopInfo (TroopInfos c))"
    using assms(2) by (simp only: SOX_no_sNaN_def encode_troopInfos_raw)
  also have "\<dots> = padto 6364 (drop 8 b)"
    by (subst c) (simp add: raw_troopInfos_at)
  finally have "Encode c =
      padto 4 b @ padto 4 (drop 4 b) @ padto 6364 (drop 8 b) @ replicate 64 0"
    by (simp add: Encode_def) (simp add: c PutUint32_Uint32_padto)
  then show ?thesis
    using padto_append_rest [of 4 b 4 "padto 6364 (drop 8 b) @ replicate 64 0"]
      padto_append [of 8 b 6364]
    by simp
qed

lemma Decode_zeros: "Decode (b @ replicate k 0) = Decode b"
proof -
  obtain k' where "drop 8 (b @ replicate k (0::byte)) = drop 8 b @ replicate k' 0"
    using drop_append_zeros by blast
  then show ?thesis
    using padto_zeros [of 4 0 b k] padto_zeros [of 4 4 b k]
    by (simp add: Decode_eq troopInfos_at_zeros del: drop_append)
qed

lemma Decode_prefix:
  assumes "6372 \<le> length b"
  shows "Decode (b @ t) = Decode b"
proof -
  have "148 * 43 \<le> length (drop 8 b)"
    using assms by simp
  then have "troopInfos_at 43 (drop 8 b @ t) = troopInfos_at 43 (drop 8 b)"
    by (rule troopInfos_at_prefix)
  then show ?thesis
    using padto_prefix [of 0 4 b t] padto_prefix [of 4 4 b t] assms
    by (simp add: Decode_eq)
qed

section \<open>The inputs evaluated\<close>

lemma Uint32_100: "Uint32 [0x64, 0, 0, 0] = 100"
  by (simp add: Uint32_def)

lemma Uint32_99: "Uint32 [0x63, 0, 0, 0] = 99"
  by (simp add: Uint32_def)

lemma Uint32_43: "Uint32 [0x2B, 0, 0, 0] = 43"
  by (simp add: Uint32_def)

lemma Decode_sox_header: "Decode sox_header = Inr valid_zero_SOX"
  using troopInfos_at_replicate [of 43 0]
  by (simp add: Decode_eq sox_header_def padto_def Uint32_100 Uint32_43 valid_zero_SOX_def
      zero_troopInfoSOX_def)

lemma Decode_zero_sox_file: "Decode zero_sox_file = Inr valid_zero_SOX"
proof -
  have eq: "zero_sox_file = sox_header @ replicate (43 * 148 + 64) 0"
    by (simp add: zero_sox_file_def replicate_add [symmetric])
  show ?thesis
    by (subst eq) (simp only: Decode_zeros Decode_sox_header)
qed

lemma Decode_ones_trailer_file: "Decode ones_trailer_file = Inr valid_zero_SOX"
proof -
  have "6372 \<le> length (sox_header @ replicate (43 * 148) (0::byte))"
    by (simp add: sox_header_def)
  then have "Decode ((sox_header @ replicate (43 * 148) 0) @ replicate 64 1)
      = Decode (sox_header @ replicate (43 * 148) 0)"
    by (rule Decode_prefix)
  then have "Decode ones_trailer_file = Decode (sox_header @ replicate (43 * 148) 0)"
    by (simp add: ones_trailer_file_def)
  then show ?thesis
    by (simp only: Decode_zeros Decode_sox_header)
qed

lemma Decode_version99_file:
  "Decode version99_file = Inr (zero_troopInfoSOX\<lparr>Version := 99, Count := 43\<rparr>)"
proof -
  have eq: "version99_file = [0x63, 0, 0, 0, 0x2B, 0, 0, 0] @ replicate (43 * 148 + 64) 0"
    by (simp add: version99_file_def replicate_add [symmetric])
  have "Decode [0x63, 0, 0, 0, 0x2B, 0, 0, 0]
      = Inr (zero_troopInfoSOX\<lparr>Version := 99, Count := 43\<rparr>)"
    using troopInfos_at_replicate [of 43 0]
    by (simp add: Decode_eq padto_def Uint32_99 Uint32_43 zero_troopInfoSOX_def)
  then show ?thesis
    by (subst eq) (simp only: Decode_zeros)
qed

lemma PutUint32_100: "PutUint32 100 = [0x64, 0, 0, 0]"
  by (simp add: PutUint32_def)

lemma PutUint32_43: "PutUint32 43 = [0x2B, 0, 0, 0]"
  by (simp add: PutUint32_def)

lemma Encode_valid_zero_SOX: "Encode valid_zero_SOX = zero_sox_file"
proof -
  have "list_all troopInfo_no_sNaN (replicate 43 zero_troopInfo)"
    by (simp add: list_all_iff troopInfo_no_sNaN_zero)
  then have "concat (map encode_troopInfo (replicate 43 zero_troopInfo))
      = concat (map raw_troopInfo (replicate 43 zero_troopInfo))"
    by (rule encode_troopInfos_raw)
  also have "\<dots> = replicate (43 * 148) 0"
    using raw_troopInfos_at [of 43 "[]"] troopInfos_at_replicate [of 43 0]
    by (simp add: padto_def)
  finally have "concat (map encode_troopInfo (replicate 43 zero_troopInfo))
      = replicate (43 * 148) 0" .
  then show ?thesis
    by (simp add: Encode_def valid_zero_SOX_def zero_troopInfoSOX_def zero_sox_file_def
        sox_header_def PutUint32_100 PutUint32_43)
qed

lemma length_zero_sox_file: "length zero_sox_file = 8 + 43 * 148 + 64"
  by (simp add: zero_sox_file_def sox_header_def)

lemma length_ones_trailer_file: "length ones_trailer_file = 8 + 43 * 148 + 64"
  by (simp add: ones_trailer_file_def sox_header_def)

lemma zero_sox_file_neq: "zero_sox_file \<noteq> ones_trailer_file"
proof
  assume "zero_sox_file = ones_trailer_file"
  then have "replicate 64 (0::byte) = replicate 64 1"
    by (simp add: zero_sox_file_def ones_trailer_file_def)
  then have "replicate 64 (0::byte) ! 0 = replicate 64 (1::byte) ! 0"
    by simp
  then show False
    by simp
qed

section \<open>Encoding then reading\<close>

lemma padto_PutUint32: "padto 4 (PutUint32 v @ r) = PutUint32 v"
  by (simp add: padto_def PutUint32_def)

lemma drop_PutUint32: "drop 4 (PutUint32 v @ r) = r"
  by (simp add: PutUint32_def)

lemma readInt32_PutUint32: "readInt32 (PutUint32 v @ r) = Inr (v, r)"
  by (simp add: readInt32_eq padto_PutUint32 length_PutUint32 Uint32_PutUint32)

lemma readFloat32_PutUint32: "readFloat32 (PutUint32 (Float32bits x) @ r) = Inr (x, r)"
  by (simp add: readFloat32_eq padto_PutUint32 length_PutUint32 Uint32_PutUint32)

lemma bindE_readInt32_Put: "bindE readInt32 k (PutUint32 v @ r) = k v r"
  by (simp add: bindE_def readInt32_PutUint32)

lemma bindE_readFloat32_Put: "bindE readFloat32 k (PutUint32 (Float32bits x) @ r) = k x r"
  by (simp add: bindE_def readFloat32_PutUint32)

lemmas read_Put_simps = bindE_readInt32_Put bindE_readFloat32_Put returnE_def

lemma read_troopInfo_raw: "read_troopInfo (raw_troopInfo ti @ r) = Inr (ti, r)"
proof -
  obtain l0 l1 l2 where l: "LevelUpData ti = (l0, l1, l2)"
    by (cases "LevelUpData ti")
  have "read_troopInfo (raw_troopInfo ti @ r) =
      Inr (ti\<lparr>LevelUpData := (l0, l1, l2)\<rparr>, r)"
    by (simp add: raw_troopInfo_def troopInfo_scalars_def troopInfo_head_scalars_def
        levelUpData_scalars_def list3_def l read_troopInfo_def read_Put_simps)
  then show ?thesis
    using l by simp
qed

lemma read_troopInfo_encode:
  "troopInfo_no_sNaN ti \<Longrightarrow> read_troopInfo (encode_troopInfo ti @ r) = Inr (ti, r)"
  by (simp add: encode_troopInfo_raw read_troopInfo_raw)

lemma troopInfo_at_encode:
  "troopInfo_no_sNaN ti \<Longrightarrow> troopInfo_at (encode_troopInfo ti @ r) = ti"
  by (simp add: troopInfo_at_def read_troopInfo_encode)

lemma troopInfos_at_encode:
  "list_all troopInfo_no_sNaN xs \<Longrightarrow>
   troopInfos_at (length xs) (concat (map encode_troopInfo xs) @ t) = xs"
  by (induction xs) (simp_all add: troopInfo_at_encode length_encode_troopInfo)

lemma Decode_Encode_eq:
  assumes "length (TroopInfos c) = 43" and "SOX_no_sNaN c"
  shows "Decode (Encode c) = Inr (c\<lparr>TheEnd := replicate 64 0\<rparr>)"
proof -
  have "troopInfos_at 43 (concat (map encode_troopInfo (TroopInfos c)) @ TheEnd c) = TroopInfos c"
    using troopInfos_at_encode [of "TroopInfos c" "TheEnd c"] assms
    by (simp add: SOX_no_sNaN_def)
  then show ?thesis
    by (simp add: Decode_eq Encode_def padto_PutUint32 length_PutUint32 Uint32_PutUint32)
qed

section \<open>The text form\<close>

lemma labelled_marshal_troopInfo:
  "labelled_values (marshal_troopInfo ti) =
     zip (troopInfo_head_tags @ concat (replicate 3 levelUpData_tags) @ [''damage_distribution''])
       (troopInfo_scalars ti)"
  by (cases "LevelUpData ti")
    (simp add: marshal_troopInfo_def marshal_levelUpData_def troopInfo_head_tags_def
      levelUpData_tags_def troopInfo_scalars_def troopInfo_head_scalars_def
      levelUpData_scalars_def list3_def numeral_3_eq_3)

lemma length_record_tags:
  "length (troopInfo_head_tags @ concat (replicate 3 levelUpData_tags) @ [''damage_distribution''])
     = 37"
  by (simp add: troopInfo_head_tags_def levelUpData_tags_def numeral_3_eq_3)

lemma length_tags_scalars:
  "length (troopInfo_head_tags @ concat (replicate 3 levelUpData_tags) @ [''damage_distribution''])
     = length (troopInfo_scalars ti)"
  by (simp only: length_record_tags length_troopInfo_scalars)

lemma length_labelled_marshal_troopInfo: "length (labelled_values (marshal_troopInfo ti)) = 37"
  by (simp only: labelled_marshal_troopInfo length_zip length_record_tags
      length_troopInfo_scalars min.idem)

lemma values_marshal_troopInfo:
  "map snd (labelled_values (marshal_troopInfo ti)) = troopInfo_scalars ti"
  unfolding labelled_marshal_troopInfo using length_tags_scalars by (rule map_snd_zip)

lemma tags_marshal_troopInfo:
  "map fst (labelled_values (marshal_troopInfo ti)) =
     troopInfo_head_tags @ concat (replicate 3 levelUpData_tags) @ [''damage_distribution'']"
  unfolding labelled_marshal_troopInfo using length_tags_scalars by (rule map_fst_zip)

lemma troop_infos_nodes_ToText:
  "troop_infos_nodes (document (ToText c)) = map marshal_troopInfo (TroopInfos c)"
  by (simp add: troop_infos_nodes_def ToText_def yaml_Marshal_def)

lemma length_concat_labelled:
  "length (concat (map labelled_values (map marshal_troopInfo xs))) = length xs * 37"
  by (induction xs) (simp_all add: length_labelled_marshal_troopInfo)

section \<open>From text to binary\<close>

lemma int32FromBytes_PutUint32: "int32FromBytes (PutUint32 v) = Inr v"
  by (simp add: int32FromBytes_def binary_Read_uint32_def length_PutUint32 Uint32_PutUint32)

lemma Encode_Version: "take 4 (Encode c) = PutUint32 (Version c)"
  by (simp add: Encode_def length_PutUint32)

lemma Encode_Count: "take 4 (drop 4 (Encode c)) = PutUint32 (Count c)"
  by (simp add: Encode_def length_PutUint32)

section \<open>The claims\<close>

text \<open>
  C1, at a failing input. \<open>ones_trailer_file\<close> has the fixed size and the header 100, 43,
  so the round trip should return it. \<open>Decode\<close> yields the container with a zero
  trailer, whose encoding is \<open>zero_sox_file\<close>: the 64 trailing bytes 1 come back as 0.
\<close>

theorem Encode_Decode_changes_trailer:
  "length ones_trailer_file = 8 + 43 * 148 + 64
   \<and> take 8 ones_trailer_file = sox_header
   \<and> Decode ones_trailer_file = Inr valid_zero_SOX
   \<and> Encode valid_zero_SOX = zero_sox_file
   \<and> zero_sox_file \<noteq> ones_trailer_file"
  by (simp add: length_ones_trailer_file Decode_ones_trailer_file Encode_valid_zero_SOX
      zero_sox_file_neq)
    (simp add: ones_trailer_file_def sox_header_def)

text \<open>
  C2, at a failing input. The 64 bytes that follow the last record of
  \<open>ones_trailer_file\<close> are all 1; the \<open>TheEnd\<close> of the decoded container is all 0.
\<close>

theorem Decode_drops_trailer:
  "Decode ones_trailer_file = Inr valid_zero_SOX
   \<and> drop (8 + 43 * 148) ones_trailer_file = replicate 64 1
   \<and> TheEnd valid_zero_SOX = replicate 64 0"
  by (simp add: Decode_ones_trailer_file valid_zero_SOX_def zero_troopInfoSOX_def)
    (simp add: ones_trailer_file_def sox_header_def)

text \<open>
  C3 as stated fails: the eight header bytes alone, far fewer than the fixed size, decode
  to a container.
\<close>

theorem Decode_truncated_counterexample:
  "length sox_header < 8 + 43 * 148 + 64 \<and> Decode sox_header = Inr valid_zero_SOX"
  by (simp add: Decode_sox_header) (simp add: sox_header_def)

text \<open>
  C3 amended. \<open>readBytes\<close> lets \<open>io.EOF\<close> pass, so an input shorter than the fixed size
  that starts with a valid header is decoded, not rejected: the bytes it lacks are read
  as zero, and the container is the one decoded from the input padded with zero bytes
  to the fixed size.
\<close>

theorem Decode_truncated:
  assumes "length b < 8 + 43 * 148 + 64" and "take 8 b = sox_header"
  shows "\<exists>c. Decode b = Inr c
           \<and> Decode (b @ replicate (8 + 43 * 148 + 64 - length b) 0) = Inr c
           \<and> Version c = 100 \<and> Count c = 43"
proof -
  have "b = sox_header @ drop 8 b"
    using assms(2) append_take_drop_id [of 8 b] by simp
  then obtain r where b: "b = sox_header @ r" ..
  have "padto 4 b = [0x64, 0, 0, 0]" and "padto 4 (drop 4 b) = [0x2B, 0, 0, 0]"
    by (simp_all add: b sox_header_def padto_def)
  then show ?thesis
    by (simp add: Decode_zeros) (simp add: Decode_eq Uint32_100 Uint32_43)
qed

theorem Decode_truncated_witness:
  "length sox_header < 8 + 43 * 148 + 64 \<and> take 8 sox_header = sox_header
   \<and> (\<exists>c. Decode sox_header = Inr c
          \<and> Decode (sox_header @ replicate (8 + 43 * 148 + 64 - length sox_header) 0) = Inr c
          \<and> Version c = 100 \<and> Count c = 43)"
proof -
  have h: "length sox_header < 8 + 43 * 148 + 64" "take 8 sox_header = sox_header"
    by (simp_all add: sox_header_def)
  show ?thesis
    using h Decode_truncated [OF h] by simp
qed

text \<open>
  C4, at failing inputs. With \<open>-write\<close>, when \<open>TroopInfo.yaml\<close> cannot be read, and when
  it is read but \<open>yaml.Unmarshal\<close> fails, \<open>binaryData\<close> returns the empty buffer and the
  error; \<open>log.Fatal().Err(err)\<close> does not end the process, and \<open>ioutil.WriteFile\<close>
  replaces \<open>TroopInfo.sox\<close> with the empty byte sequence. The run exits with code 0.
\<close>

theorem main_write_empties_sox_file:
  "main_write yaml_Unmarshal \<lparr>sox_file = zero_sox_file, yaml_file = Inl errReadFile\<rparr>
     = (\<lparr>sox_file = [], yaml_file = Inl errReadFile\<rparr>, 0)
   \<and> main_write (\<lambda>yamlData sox. Inl errUnmarshal)
         \<lparr>sox_file = zero_sox_file, yaml_file = Inr ''version: [''\<rparr>
     = (\<lparr>sox_file = [], yaml_file = Inr ''version: [''\<rparr>, 0)"
  by (simp add: main_write_def decode_file_eq binaryData_def Fatal_Err_def)

text \<open>
  C5, at a failing input. \<open>version99_file\<close> has the fixed size and starts with the
  little-endian \<open>int32\<close> 99; \<open>validSOX\<close> rejects 99 and 43, and yet \<open>Decode\<close> returns a
  container, with \<open>Version\<close> 99: \<open>log.Fatal().Err(errInvalidSOX)\<close> does not end the process.
\<close>

theorem Decode_accepts_invalid_header:
  "int32FromBytes (take 4 version99_file) = Inr 99
   \<and> validSOX 99 43 = False
   \<and> Decode version99_file = Inr (zero_troopInfoSOX\<lparr>Version := 99, Count := 43\<rparr>)"
  by (simp add: Decode_version99_file validSOX_def)
    (simp add: version99_file_def int32FromBytes_def binary_Read_uint32_def Uint32_99)

theorem Decode_accepts_invalid_header_witness:
  "Decode version99_file = Inr (zero_troopInfoSOX\<lparr>Version := 99, Count := 43\<rparr>)"
  using Decode_accepts_invalid_header by simp

text \<open>
  C6 as stated fails: 30 scalar fields stand before \<open>LevelUpData\<close>, not 39; five of them
  are integers, not two; and the whole record has 37 scalars.
\<close>

theorem troopInfo_layout_counterexample:
  "length (troopInfo_head_scalars zero_troopInfo) \<noteq> 39
   \<and> length (filter is_int (troopInfo_head_scalars zero_troopInfo)) \<noteq> 2
   \<and> length (troopInfo_scalars zero_troopInfo) \<noteq> 39"
  by (simp add: length_troopInfo_scalars) (simp add: troopInfo_head_scalars_def)

text \<open>
  C6 amended. A record is written as 30 scalar fields of four bytes each: two integers
  (\<open>Job\<close>, \<open>TypeID\<close>), 24 floats, three integers (\<open>FormationRandom\<close>, \<open>DefaultUnitNumX\<close>,
  \<open>DefaultUnitNumY\<close>) and one float (\<open>UnitHPLevUp\<close>); then exactly three level-up entries,
  each an integer and a float; then one float: 37 scalars, 148 bytes.
\<close>

theorem troopInfo_layout:
  "map is_int (troopInfo_head_scalars ti)
     = replicate 2 True @ replicate 24 False @ replicate 3 True @ [False]
   \<and> troopInfo_scalars ti
     = troopInfo_head_scalars ti
         @ concat (map (\<lambda>l. [I32 (SkillID l), F32 (SkillPerLevel l)]) (list3 (LevelUpData ti)))
         @ [F32 (DamageDistribution ti)]
   \<and> length (list3 (LevelUpData ti)) = 3
   \<and> length (troopInfo_scalars ti) = 37
   \<and> encode_troopInfo ti = concat (map encode_scalar (troopInfo_scalars ti))
   \<and> list_all (\<lambda>s. length (encode_scalar s) = 4) (troopInfo_scalars ti)
   \<and> length (encode_troopInfo ti) = 148"
proof -
  obtain l0 l1 l2 where l: "LevelUpData ti = (l0, l1, l2)"
    by (cases "LevelUpData ti")
  have a: "map is_int (troopInfo_head_scalars ti)
      = replicate 2 True @ replicate 24 False @ replicate 3 True @ [False]"
    by (simp add: troopInfo_head_scalars_def numeral_eq_Suc)
  have b: "troopInfo_scalars ti
      = troopInfo_head_scalars ti
          @ concat (map (\<lambda>l. [I32 (SkillID l), F32 (SkillPerLevel l)]) (list3 (LevelUpData ti)))
          @ [F32 (DamageDistribution ti)]"
    by (simp add: troopInfo_scalars_def levelUpData_scalars_def l list3_def)
  have c: "length (list3 (LevelUpData ti)) = 3"
    by (simp add: l list3_def)
  have d: "list_all (\<lambda>s. length (encode_scalar s) = 4) (troopInfo_scalars ti)"
    by (simp add: list_all_iff length_encode_scalar)
  show ?thesis
    by (intro conjI a b c d length_troopInfo_scalars encode_troopInfo_def
        length_encode_troopInfo)
qed

text \<open>
  C7 as stated fails: the text of a decoded valid file does not hold 43 times 39
  labelled record values.
\<close>

theorem ToText_values_counterexample:
  "Decode zero_sox_file = Inr valid_zero_SOX
   \<and> length (concat (map labelled_values
        (troop_infos_nodes (document (ToText valid_zero_SOX))))) \<noteq> 43 * 39"
proof -
  have "length (TroopInfos valid_zero_SOX) = 43"
    by (simp add: valid_zero_SOX_def zero_troopInfoSOX_def)
  then have "length (concat (map labelled_values
      (troop_infos_nodes (document (ToText valid_zero_SOX))))) = 43 * 37"
    by (simp only: troop_infos_nodes_ToText length_concat_labelled)
  then show ?thesis
    by (simp add: Decode_zero_sox_file)
qed

text \<open>
  C7 amended. For every input of the fixed size with a valid header, the text of the
  decoded container has under \<open>troop_infos\<close> one node per record, 43 of them; the node
  of a record holds, each under its tag and in declaration order, the values of all 37
  scalars of the record (30 fields, three level-up entries of two fields each, and
  \<open>damage_distribution\<close>): 43 times 37 labelled values in all.
\<close>

theorem ToText_values:
  assumes "length b = 8 + 43 * 148 + 64" and "take 8 b = sox_header"
  shows "\<exists>c. Decode b = Inr c
     \<and> troop_infos_nodes (document (ToText c)) = map marshal_troopInfo (TroopInfos c)
     \<and> length (TroopInfos c) = 43
     \<and> list_all
         (\<lambda>ti. map snd (labelled_values (marshal_troopInfo ti)) = troopInfo_scalars ti
            \<and> map fst (labelled_values (marshal_troopInfo ti))
                = troopInfo_head_tags @ concat (replicate 3 levelUpData_tags)
                    @ [''damage_distribution'']
            \<and> length (labelled_values (marshal_troopInfo ti)) = 37)
         (TroopInfos c)
     \<and> length (concat (map labelled_values (troop_infos_nodes (document (ToText c)))))
         = 43 * 37"
proof -
  obtain c where c: "Decode b = Inr c" and n: "length (TroopInfos c) = 43"
    by (simp add: Decode_eq length_troopInfos_at)
  have "length (concat (map labelled_values (troop_infos_nodes (document (ToText c)))))
      = 43 * 37"
    by (simp only: troop_infos_nodes_ToText length_concat_labelled n)
  then show ?thesis
    using c n
    by (simp add: troop_infos_nodes_ToText list_all_iff values_marshal_troopInfo
        tags_marshal_troopInfo length_labelled_marshal_troopInfo del: map_map)
qed

theorem ToText_values_witness:
  "length zero_sox_file = 8 + 43 * 148 + 64 \<and> take 8 zero_sox_file = sox_header
   \<and> (\<exists>c. Decode zero_sox_file = Inr c
        \<and> length (TroopInfos c) = 43
        \<and> length (concat (map labelled_values (troop_infos_nodes (document (ToText c)))))
            = 43 * 37)"
proof -
  have h: "length zero_sox_file = 8 + 43 * 148 + 64" "take 8 zero_sox_file = sox_header"
    by (simp_all add: zero_sox_file_def sox_header_def)
  show ?thesis
    using h ToText_values [OF h] by blast
qed

text \<open>
  C8. The container with version 100, count 43, 43 zero records and a zero trailer is
  written as the bytes 64 00 00 00 2B 00 00 00 followed by zero bytes only, 8 + 43 * 148
  + 64 = 6436 bytes in all.
\<close>

theorem Encode_zero_container:
  "Encode \<lparr>Version = 100, Count = 43, TroopInfos = replicate 43 zero_troopInfo,
           TheEnd = replicate 64 0\<rparr>
     = [0x64, 0, 0, 0, 0x2B, 0, 0, 0] @ replicate (43 * 148 + 64) 0
   \<and> length (Encode \<lparr>Version = 100, Count = 43, TroopInfos = replicate 43 zero_troopInfo,
                    TheEnd = replicate 64 0\<rparr>) = 6436"
proof -
  have "\<lparr>Version = 100, Count = 43, TroopInfos = replicate 43 zero_troopInfo,
         TheEnd = replicate 64 0\<rparr> = valid_zero_SOX"
    by (simp add: valid_zero_SOX_def zero_troopInfoSOX_def)
  then show ?thesis
    by (simp add: Encode_valid_zero_SOX length_zero_sox_file)
      (simp add: zero_sox_file_def sox_header_def replicate_add [symmetric])
qed

text \<open>
  C10. \<open>binaryData\<close> never checks the header: whenever the text is read and
  \<open>yaml.Unmarshal\<close> succeeds, the bytes returned are the encoding of the container it
  left, and their first two little-endian \<open>int32\<close> values are that container's \<open>Version\<close>
  and \<open>Count\<close>, whatever they are. A key the text does not supply leaves the field of the
  container passed in, which the callers give as the zero value.
\<close>

theorem binaryData_header_unchecked:
  assumes "yaml_Unmarshal yamlData sox = Inr sox'"
  shows "\<exists>data. binaryData yaml_Unmarshal (Inr yamlData) sox = (data, None)
           \<and> data = Encode sox'
           \<and> int32FromBytes (take 4 data) = Inr (Version sox')
           \<and> int32FromBytes (take 4 (drop 4 data)) = Inr (Count sox')"
  using assms
  by (simp add: binaryData_def Encode_Version Encode_Count int32FromBytes_PutUint32)

theorem binaryData_header_unchecked_witness:
  "\<exists>data. binaryData (\<lambda>yamlData sox. Inr (sox\<lparr>Version := 7\<rparr>)) (Inr ''version: 7'')
            zero_troopInfoSOX = (data, None)
     \<and> int32FromBytes (take 4 data) = Inr 7
     \<and> int32FromBytes (take 4 (drop 4 data)) = Inr 0
     \<and> validSOX 7 0 = False"
  using binaryData_header_unchecked
    [of "\<lambda>yamlData sox. Inr (sox\<lparr>Version := 7\<rparr>)" "''version: 7''" zero_troopInfoSOX
      "zero_troopInfoSOX\<lparr>Version := 7\<rparr>"]
  by (simp add: validSOX_def zero_troopInfoSOX_def)

section \<open>Further properties of the codec\<close>

text \<open>
  \<open>Decode\<close> returns a container for every input: no read and no check ends the run.
  The container has 43 records, and its trailer is 64 zero bytes whatever the input
  holds (the defect behind C1, C2 and C5).
\<close>

theorem Decode_total:
  "\<exists>c. Decode b = Inr c \<and> length (TroopInfos c) = 43 \<and> TheEnd c = replicate 64 0"
  by (simp add: Decode_eq length_troopInfos_at)

text \<open>
  For an input of the fixed size whose float fields hold no signalling NaN, encoding
  the decoded container gives as many bytes, and gives back the header and the 43
  records byte for byte.
\<close>

theorem Encode_Decode_fixed_size:
  assumes "length b = 8 + 43 * 148 + 64" and "Decode b = Inr c" and "SOX_no_sNaN c"
  shows "length (Encode c) = length b
    \<and> take (8 + 43 * 148) (Encode c) = take (8 + 43 * 148) b"
  using assms Encode_Decode_eq [of b c] by (simp add: padto_exact)

theorem Encode_Decode_fixed_size_witness:
  "length ones_trailer_file = 8 + 43 * 148 + 64
   \<and> Decode ones_trailer_file = Inr valid_zero_SOX
   \<and> SOX_no_sNaN valid_zero_SOX
   \<and> length (Encode valid_zero_SOX) = length ones_trailer_file
   \<and> take (8 + 43 * 148) (Encode valid_zero_SOX) = take (8 + 43 * 148) ones_trailer_file"
  using Encode_Decode_fixed_size
    [OF length_ones_trailer_file Decode_ones_trailer_file SOX_no_sNaN_valid_zero_SOX]
  by (simp add: length_ones_trailer_file Decode_ones_trailer_file SOX_no_sNaN_valid_zero_SOX)

text \<open>
  The round trip from bytes holds for the inputs of the fixed size whose last 64 bytes
  are zero and whose float fields hold no signalling NaN.
\<close>

theorem Encode_Decode_zero_trailer:
  assumes "length b = 8 + 43 * 148 + 64" and "drop (8 + 43 * 148) b = replicate 64 0"
    and "Decode b = Inr c" and "SOX_no_sNaN c"
  shows "Encode c = b"
proof -
  have "Encode c = take (8 + 43 * 148) b @ drop (8 + 43 * 148) b"
    using assms Encode_Decode_eq [of b c] by (simp add: padto_exact)
  then show ?thesis
    by (simp only: append_take_drop_id)
qed

theorem Encode_Decode_zero_trailer_witness:
  "length zero_sox_file = 8 + 43 * 148 + 64
   \<and> drop (8 + 43 * 148) zero_sox_file = replicate 64 0
   \<and> Decode zero_sox_file = Inr valid_zero_SOX
   \<and> SOX_no_sNaN valid_zero_SOX
   \<and> Encode valid_zero_SOX = zero_sox_file"
proof -
  have d: "drop (8 + 43 * 148) zero_sox_file = replicate 64 0"
    by (simp add: zero_sox_file_def sox_header_def)
  show ?thesis
    using Encode_Decode_zero_trailer
      [OF length_zero_sox_file d Decode_zero_sox_file SOX_no_sNaN_valid_zero_SOX] d
    by (simp add: length_zero_sox_file Decode_zero_sox_file SOX_no_sNaN_valid_zero_SOX)
qed

text \<open>
  The round trip from a container: decoding the encoding of a container with a valid
  header, 43 records free of signalling NaNs and a zero trailer returns the container.
\<close>

theorem Decode_Encode:
  assumes "length (TroopInfos c) = 43" and "TheEnd c = replicate 64 0"
    and "validSOX (Version c) (Count c)" and "SOX_no_sNaN c"
  shows "Decode (Encode c) = Inr c"
  using Decode_Encode_eq [OF assms(1) assms(4)] by (simp add: assms(2) [symmetric])

theorem Decode_Encode_witness:
  "length (TroopInfos valid_zero_SOX) = 43 \<and> TheEnd valid_zero_SOX = replicate 64 0
   \<and> validSOX (Version valid_zero_SOX) (Count valid_zero_SOX)
   \<and> SOX_no_sNaN valid_zero_SOX
   \<and> Decode (Encode valid_zero_SOX) = Inr valid_zero_SOX"
proof -
  have "length (TroopInfos valid_zero_SOX) = 43" "TheEnd valid_zero_SOX = replicate 64 0"
    "validSOX (Version valid_zero_SOX) (Count valid_zero_SOX)"
    by (simp_all add: valid_zero_SOX_def zero_troopInfoSOX_def validSOX_def)
  then have h: "length (TroopInfos valid_zero_SOX) = 43"
    "TheEnd valid_zero_SOX = replicate 64 0"
    "validSOX (Version valid_zero_SOX) (Count valid_zero_SOX)" "SOX_no_sNaN valid_zero_SOX"
    using SOX_no_sNaN_valid_zero_SOX by blast+
  show ?thesis
    using h Decode_Encode [OF h] by simp
qed

text \<open>
  The reader and the writer agree on the layout of a record: from the 148 bytes written
  for a record free of signalling NaNs, \<open>read_troopInfo\<close> reads that record back and
  leaves the bytes that follow.
\<close>

theorem read_troopInfo_reads_back:
  assumes "troopInfo_no_sNaN ti"
  shows "read_troopInfo (encode_troopInfo ti @ rest) = Inr (ti, rest)"
  using assms by (rule read_troopInfo_encode)

theorem read_troopInfo_reads_back_witness:
  "troopInfo_no_sNaN zero_troopInfo
   \<and> read_troopInfo (encode_troopInfo zero_troopInfo @ [1, 2]) = Inr (zero_troopInfo, [1, 2])"
  using read_troopInfo_reads_back [OF troopInfo_no_sNaN_zero, of "[1, 2]"]
  by (simp add: troopInfo_no_sNaN_zero)

text \<open>
  With \<open>-write\<close>, when the text is read and \<open>yaml.Unmarshal\<close> succeeds, \<open>TroopInfo.sox\<close>
  is replaced by the encoding of the whole container built from the text, and the run
  exits with code 0.
\<close>

theorem main_write_success:
  assumes "yaml_file fs = Inr yamlData"
    and "yaml_Unmarshal yamlData zero_troopInfoSOX = Inr sox"
  shows "main_write yaml_Unmarshal fs = (fs\<lparr>sox_file := Encode sox\<rparr>, 0)"
  using assms by (simp add: main_write_def decode_file_eq binaryData_def)

theorem main_write_success_witness:
  "main_write (\<lambda>yamlData sox. Inr (sox\<lparr>Version := 100, Count := 43\<rparr>))
      \<lparr>sox_file = ones_trailer_file, yaml_file = Inr ''{version: 100, count: 43}''\<rparr>
     = (\<lparr>sox_file = zero_sox_file, yaml_file = Inr ''{version: 100, count: 43}''\<rparr>, 0)"
  using main_write_success
    [of "\<lparr>sox_file = ones_trailer_file, yaml_file = Inr ''{version: 100, count: 43}''\<rparr>"
      "''{version: 100, count: 43}''"
      "\<lambda>yamlData sox. Inr (sox\<lparr>Version := 100, Count := 43\<rparr>)" valid_zero_SOX]
    Encode_valid_zero_SOX
  by (simp add: valid_zero_SOX_def)

text \<open>\<open>validSOX\<close> accepts the header with version 100 and count 43, and no other.\<close>

theorem validSOX_iff: "validSOX version count = (version = 100 \<and> count = 43)"
  by (simp add: validSOX_def)

theorem validSOX_iff_witness: "validSOX 100 43 \<and> validSOX 99 43 = False"
  using validSOX_iff [of 100 43] validSOX_iff [of 99 43] by simp

end
